theory Spec2Isabelle
  imports Main
begin

section \<open>QuizGen: the quiz-room documents and the handlers of App.jsx\<close>

text \<open>
  The application is one React component (\<^verbatim>\<open>App\<close>) over a Firestore collection of
  room documents. The embedding keeps the two kinds of state apart: the component's
  \<^verbatim>\<open>useState\<close> variables form the record \<open>app\<close>, one value per client, and the
  collection \<^verbatim>\<open>quizRooms\<close> is a map from room codes to room documents, shared by all
  clients. Every handler takes both and returns both.
\<close>

subsection \<open>Documents\<close>

text \<open>
  The three values the code ever writes to the field \<^verbatim>\<open>status\<close>:
  \<^verbatim>\<open>'lobby'\<close>, \<^verbatim>\<open>'in-progress'\<close>, \<^verbatim>\<open>'finished'\<close>.
\<close>

datatype status = Lobby | InProgress | Finished

text \<open>
  An item of the generator's array, with the four fields the response schema of
  \<^verbatim>\<open>generateAIQuestions\<close> requires.
\<close>

record question_doc =
  question :: string
  options :: "string list"
  correctAnswer :: string
  explanation :: string

text \<open>\<^verbatim>\<open>{ questionIndex, answer, isCorrect }\<close>, built in \<^verbatim>\<open>handleAnswerSubmit\<close>.\<close>

record answer_doc =
  questionIndex :: nat
  answer :: string
  isCorrect :: bool

text \<open>
  A value of the map \<^verbatim>\<open>players\<close>. The handlers that create an entry write all four
  fields; the field-path update of \<^verbatim>\<open>handleAnswerSubmit\<close> writes only
  \<^verbatim>\<open>answers\<close> and \<^verbatim>\<open>score\<close>, so an entry it creates has no \<^verbatim>\<open>id\<close> and no
  \<^verbatim>\<open>name\<close>: both are optional. (\<^verbatim>\<open>id\<close> is \<open>player_id\<close> here.)
\<close>

record player_doc =
  player_id :: "string option"
  name :: "string option"
  score :: int
  answers :: "answer_doc list"

text \<open>
  A field-path update can write below \<^verbatim>\<open>players\<close> at a path of several segments
  (see \<open>setPlayer\<close>): what it writes there is a player object, an answers list or a
  score.
\<close>

datatype deep_value = DPlayer player_doc | DAnswers "answer_doc list" | DScore int

text \<open>
  The room document. \<open>players\<close> holds the entries of the map \<^verbatim>\<open>players\<close> by their
  keys; \<open>deeper\<close> holds what has been written inside that map at paths of more than one
  segment, by path. The application reads \<open>players\<close> only.
\<close>

record room_doc =
  topic :: string
  difficulty :: string
  timer :: int
  status :: status
  hostId :: string
  createdAt :: nat
  questions :: "question_doc list"
  players :: "string \<rightharpoonup> player_doc"
  deeper :: "string list \<rightharpoonup> deep_value"

text \<open>The collection \<^verbatim>\<open>quizRooms\<close>: document identifier (the room code) to document.\<close>

type_synonym store = "string \<rightharpoonup> room_doc"

subsection \<open>Room codes\<close>

text \<open>
  \<^verbatim>\<open>String.prototype.toUpperCase\<close> on the characters a room code is made of: the
  letters \<^verbatim>\<open>a\<close> to \<^verbatim>\<open>z\<close> move to \<^verbatim>\<open>A\<close> to \<^verbatim>\<open>Z\<close>, every other ASCII character
  stays.
\<close>

definition upperChar :: "char \<Rightarrow> char" where
  "upperChar ch =
     (let n = (of_char ch :: nat) in if 97 \<le> n \<and> n \<le> 122 then char_of (n - 32) else ch)"

definition toUpperCase :: "string \<Rightarrow> string" where
  "toUpperCase s = map upperChar s"

text \<open>\<^verbatim>\<open>s.substring(a, b)\<close> for \<open>a \<le> b\<close>: both ends are clamped to the length.\<close>

definition substring :: "nat \<Rightarrow> nat \<Rightarrow> string \<Rightarrow> string" where
  "substring a b s = take (b - a) (drop a s)"

text \<open>
  \<^verbatim>\<open>Math.random().toString(36).substring(2, 7).toUpperCase()\<close>. The random number
  enters as its base-36 rendering \<open>r\<close>, the value of \<^verbatim>\<open>Math.random().toString(36)\<close>:
  \<^verbatim>\<open>0\<close>, or \<^verbatim>\<open>0.\<close> followed by the fraction's digits.
\<close>

definition generateRoomCode :: "string \<Rightarrow> string" where
  "generateRoomCode r = toUpperCase (substring 2 7 r)"

subsection \<open>The component's state\<close>

text \<open>The values of \<^verbatim>\<open>page\<close>, the switch of \<^verbatim>\<open>renderPage\<close>.\<close>

datatype page = PHome | PCreate | PJoin | PLobby | PQuiz | PResults

text \<open>
  The \<^verbatim>\<open>useState\<close> variables of \<^verbatim>\<open>App\<close>, for a client that is signed in:
  \<open>userId\<close> is the identifier the authentication callback has delivered.
\<close>

record app =
  page :: page
  isLoading :: bool
  error :: string
  userId :: string
  userName :: string
  isHost :: bool
  roomCode :: string
  quizData :: "room_doc option"
  currentQuestionIndex :: nat
  selectedAnswer :: "string option"
  userAnswers :: "answer_doc list"
  quizFinished :: bool

subsection \<open>Failures\<close>

text \<open>
  What a handler can throw. \<open>NotFound\<close>, \<open>AlreadyStarted\<close> and \<open>GenerationFailed\<close> are
  the three \<^verbatim>\<open>new Error(...)\<close> of \<^verbatim>\<open>handleJoinQuiz\<close> and \<^verbatim>\<open>generateAIQuestions\<close>;
  \<open>NoDocument\<close> is the store's rejection of an update of a document that does not
  exist; \<open>TypeError\<close> is the read of \<^verbatim>\<open>correctAnswer\<close> from \<^verbatim>\<open>undefined\<close>;
  \<open>InvalidReference\<close> is thrown by \<^verbatim>\<open>doc(...)\<close> for a path that names no document
  and \<open>InvalidFieldPath\<close> by \<^verbatim>\<open>updateDoc\<close> for a field path it cannot read.
\<close>

datatype failure =
  NotFound | AlreadyStarted | GenerationFailed | NoDocument | TypeError
  | InvalidReference | InvalidFieldPath

text \<open>\<^verbatim>\<open>err.message\<close>; the last four texts stand for the library's and the engine's.\<close>

fun message :: "failure \<Rightarrow> string" where
  "message NotFound = ''Room not found. Please check the code.''"
| "message AlreadyStarted = ''This quiz is already in progress or has finished.''"
| "message GenerationFailed =
     ''The AI failed to generate questions in the correct format. Please try a different topic or try again.''"
| "message NoDocument = ''No document to update''"
| "message TypeError = ''Cannot read properties of undefined''"
| "message InvalidReference = ''Invalid document reference''"
| "message InvalidFieldPath = ''Invalid field path''"

subsection \<open>Paths\<close>

text \<open>\<^verbatim>\<open>s.split(sep)\<close> for a separator of one character.\<close>

fun splitOn :: "char \<Rightarrow> string \<Rightarrow> string list" where
  "splitOn sep [] = [[]]"
| "splitOn sep (ch # cs) =
     (if ch = sep then [] # splitOn sep cs
      else (case splitOn sep cs of s # ss \<Rightarrow> (ch # s) # ss | [] \<Rightarrow> [[ch]]))"

fun joinWith :: "char \<Rightarrow> string list \<Rightarrow> string" where
  "joinWith sep [] = []"
| "joinWith sep [s] = s"
| "joinWith sep (s # t # ss) = s @ sep # joinWith sep (t # ss)"

fun hasDoubleSlash :: "string \<Rightarrow> bool" where
  "hasDoubleSlash (a # b # cs) = ((a = CHR ''/'' \<and> b = CHR ''/'') \<or> hasDoubleSlash (b # cs))"
| "hasDoubleSlash cs = False"

text \<open>
  The store's constraints on a document identifier: not \<^verbatim>\<open>.\<close>, not \<^verbatim>\<open>..\<close>, not of the
  form \<^verbatim>\<open>__...__\<close>.
\<close>

definition refusedId :: "string \<Rightarrow> bool" where
  "refusedId s =
     (s = ''.'' \<or> s = ''..'' \<or> (4 \<le> length s \<and> take 2 s = ''__'' \<and> drop (length s - 2) s = ''__''))"

text \<open>
  \<^verbatim>\<open>doc(db, 'artifacts', appId, 'public', 'data', 'quizRooms', code)\<close>. The library
  refuses a component that contains \<^verbatim>\<open>//\<close>, splits every component at \<^verbatim>\<open>/\<close>, drops the
  empty segments and refuses a path with an odd number of segments; five segments come
  before the code's, so the code must contribute an odd number. The result is the
  document's place in \<^verbatim>\<open>quizRooms\<close>, the key of the \<open>store\<close>.
\<close>

definition docRef :: "string \<Rightarrow> failure + string" where
  "docRef code =
     (if hasDoubleSlash code then Inl InvalidReference
      else
        (let segs = filter (\<lambda>s. s \<noteq> []) (splitOn (CHR ''/'') code)
         in if even (length segs) \<or> list_ex refusedId segs then Inl InvalidReference
            else Inr (joinWith (CHR ''/'') segs)))"

text \<open>
  A field path given as a string, \<^verbatim>\<open>`players.${userId}`\<close>: the library refuses the
  string when it contains one of \<^verbatim>\<open>~ * / [ ]\<close> and splits it at the dots; it refuses
  an empty segment. \<open>fieldPath uid\<close> is the segments that follow \<^verbatim>\<open>players\<close>.
\<close>

definition reservedChar :: "char \<Rightarrow> bool" where
  "reservedChar ch = (ch \<in> set ''~*/[]'')"

definition fieldPath :: "string \<Rightarrow> string list option" where
  "fieldPath uid =
     (if list_ex reservedChar uid \<or> [] \<in> set (splitOn (CHR ''.'') uid) then None
      else Some (splitOn (CHR ''.'') uid))"

subsection \<open>The store\<close>

text \<open>
  \<^verbatim>\<open>setDoc\<close> writes the whole document, replacing one that is there; \<^verbatim>\<open>getDoc\<close>
  reads it (\<open>None\<close> is \<^verbatim>\<open>!snap.exists()\<close>). A write takes effect when it is issued.
\<close>

definition setDoc :: "store \<Rightarrow> string \<Rightarrow> room_doc \<Rightarrow> store" where
  "setDoc st code d = st(code \<mapsto> d)"

definition getDoc :: "store \<Rightarrow> string \<Rightarrow> room_doc option" where
  "getDoc st code = st code"

text \<open>
  The three field-path updates of the source:
  \<^verbatim>\<open>{ [`players.${userId}`]: newPlayer }\<close>,
  \<^verbatim>\<open>{ [`players.${userId}.answers`]: ..., [`players.${userId}.score`]: ... }\<close> and
  \<^verbatim>\<open>{ status: ... }\<close>.
\<close>

datatype update =
  UpdPlayer string player_doc
| UpdAnswersAndScore string "answer_doc list" int
| UpdStatus status

fun validUpdate :: "update \<Rightarrow> bool" where
  "validUpdate (UpdPlayer uid p) = (fieldPath uid \<noteq> None)"
| "validUpdate (UpdAnswersAndScore uid as sc) = (fieldPath uid \<noteq> None)"
| "validUpdate (UpdStatus s) = True"

text \<open>
  The value at \<^verbatim>\<open>players.<uid>\<close> is replaced. When the identifier has no dot the path
  has one segment after \<^verbatim>\<open>players\<close> and the value is the entry under the key \<open>uid\<close>,
  with everything below it. When it has dots the path goes deeper: the entry under the
  key \<open>uid\<close> is not on it and stays.
\<close>

definition setPlayer :: "string \<Rightarrow> player_doc \<Rightarrow> room_doc \<Rightarrow> room_doc" where
  "setPlayer uid p d =
     (case splitOn (CHR ''.'') uid of
        [k] \<Rightarrow>
          d\<lparr>players := (players d)(k \<mapsto> p),
            deeper := (\<lambda>q. if q \<noteq> [] \<and> hd q = k then None else deeper d q)\<rparr>
      | path \<Rightarrow>
          d\<lparr>deeper := (\<lambda>q. if take (length path) q = path
                             then (if q = path then Some (DPlayer p) else None)
                             else deeper d q)\<rparr>)"

text \<open>
  The two fields \<^verbatim>\<open>answers\<close> and \<^verbatim>\<open>score\<close> of the value at \<^verbatim>\<open>players.<uid>\<close> are
  written. Without a dot in the identifier that value is the entry under the key \<open>uid\<close>,
  created with these two fields only when it is not there. With dots the fields are
  written deeper, into the player object at that path when there is one.
\<close>

definition setAnswersAndScore ::
  "string \<Rightarrow> answer_doc list \<Rightarrow> int \<Rightarrow> room_doc \<Rightarrow> room_doc" where
  "setAnswersAndScore uid as sc d =
     (case splitOn (CHR ''.'') uid of
        [k] \<Rightarrow>
          d\<lparr>players := (players d)(k \<mapsto>
             (case players d k of
                None \<Rightarrow> \<lparr>player_id = None, name = None, score = sc, answers = as\<rparr>
              | Some p \<Rightarrow> p\<lparr>answers := as, score := sc\<rparr>))\<rparr>
      | path \<Rightarrow>
          (case deeper d path of
             Some (DPlayer p) \<Rightarrow>
               d\<lparr>deeper := (deeper d)(path \<mapsto> DPlayer (p\<lparr>answers := as, score := sc\<rparr>))\<rparr>
           | _ \<Rightarrow>
               d\<lparr>deeper := (deeper d)(path @ [''answers''] \<mapsto> DAnswers as,
                                        path @ [''score''] \<mapsto> DScore sc)\<rparr>))"

definition setStatus :: "status \<Rightarrow> room_doc \<Rightarrow> room_doc" where
  "setStatus s d = d\<lparr>status := s\<rparr>"

fun applyUpdate :: "update \<Rightarrow> room_doc \<Rightarrow> room_doc" where
  "applyUpdate (UpdPlayer uid p) d = setPlayer uid p d"
| "applyUpdate (UpdAnswersAndScore uid as sc) d = setAnswersAndScore uid as sc d"
| "applyUpdate (UpdStatus s) d = setStatus s d"

text \<open>
  \<^verbatim>\<open>updateDoc(ref, data)\<close>: the field paths are read when the call is made, and the
  call throws when one cannot be read; the update of a document that does not exist is
  rejected; otherwise the fields are written.
\<close>

definition updateDoc :: "store \<Rightarrow> string \<Rightarrow> update \<Rightarrow> failure + store" where
  "updateDoc st code u =
     (if \<not> validUpdate u then Inl InvalidFieldPath
      else
        (case st code of
           None \<Rightarrow> Inl NoDocument
         | Some d \<Rightarrow> Inr (st(code \<mapsto> applyUpdate u d))))"

subsection \<open>Question generation\<close>

text \<open>
  What \<^verbatim>\<open>generateAIQuestions\<close> gets back: the call throws, the text is not JSON, the
  JSON is not an array, or it is an array of items.
\<close>

datatype ai_reply = CallFailed | Unparseable | NotAnArray | QuestionArray "question_doc list"

text \<open>
  \<^verbatim>\<open>if (Array.isArray(parsedJson) && parsedJson.length > 0) return parsedJson;\<close>
  and every other path ends in the \<^verbatim>\<open>catch\<close>, which throws the one error.
\<close>

definition generateAIQuestions :: "ai_reply \<Rightarrow> failure + question_doc list" where
  "generateAIQuestions g =
     (case g of
        QuestionArray qs \<Rightarrow> (if qs \<noteq> [] then Inr qs else Inl GenerationFailed)
      | _ \<Rightarrow> Inl GenerationFailed)"

subsection \<open>Creating a room\<close>

text \<open>
  The form's \<^verbatim>\<open>settings\<close> with \<^verbatim>\<open>hostName\<close> added; \<open>timer_s\<close> is
  \<^verbatim>\<open>Number(settings.timer)\<close>.
\<close>

record settings =
  topic_s :: string
  difficulty_s :: string
  numQuestions :: string
  timer_s :: int
  hostName :: string

text \<open>
  \<^verbatim>\<open>handleCreateQuiz(settings)\<close>. The three things it takes from outside are
  arguments: \<open>r\<close>, the rendering of the random number; \<open>g\<close>, the generator's reply;
  \<open>now\<close>, the date. The third component of the result is what the handler rethrows.
  A code of letters and digits is its own document reference; the call of
  \<^verbatim>\<open>doc(...)\<close> is modelled for the codes that have a character.
\<close>

definition handleCreateQuiz ::
  "settings \<Rightarrow> string \<Rightarrow> ai_reply \<Rightarrow> nat \<Rightarrow> app \<Rightarrow> store \<Rightarrow> app \<times> store \<times> failure option" where
  "handleCreateQuiz s r g now c st =
     (let c0 = c\<lparr>error := []\<rparr>;
          newRoomCode = generateRoomCode r
      in case generateAIQuestions g of
           Inl e \<Rightarrow> (c0\<lparr>error := message e\<rparr>, st, Some e)
         | Inr generatedQuestions \<Rightarrow>
             (let newQuizRoom =
                    \<lparr>topic = topic_s s, difficulty = difficulty_s s, timer = timer_s s,
                     status = Lobby, hostId = userId c, createdAt = now,
                     questions = generatedQuestions,
                     players = [userId c \<mapsto>
                        \<lparr>player_id = Some (userId c), name = Some (hostName s),
                         score = 0, answers = []\<rparr>],
                     deeper = Map.empty\<rparr>
              in (c0\<lparr>roomCode := newRoomCode, userName := hostName s, isHost := True,
                      page := PLobby\<rparr>,
                  setDoc st newRoomCode newQuizRoom, None)))"

subsection \<open>Joining a room\<close>

text \<open>The state of \<^verbatim>\<open>JoinQuizPage\<close>: \<^verbatim>\<open>{ roomCode, playerName }\<close>.\<close>

record join_data =
  roomCode_d :: string
  playerName :: string

text \<open>
  \<^verbatim>\<open>JoinQuizPage.handleChange\<close>, for the form's two inputs: the value of the input
  named \<^verbatim>\<open>roomCode\<close> is stored in upper case.
\<close>

definition joinHandleChange :: "string \<Rightarrow> string \<Rightarrow> join_data \<Rightarrow> join_data" where
  "joinHandleChange field v d =
     (if field = ''roomCode'' then d\<lparr>roomCode_d := toUpperCase v\<rparr>
      else if field = ''playerName'' then d\<lparr>playerName := v\<rparr>
      else d)"

text \<open>
  The body of the \<^verbatim>\<open>try\<close> of \<^verbatim>\<open>handleJoinQuiz\<close>: \<open>Inl\<close> is the error thrown,
  \<open>Inr\<close> the state and the store when the body ends.
\<close>

definition joinBody :: "join_data \<Rightarrow> app \<Rightarrow> store \<Rightarrow> failure + app \<times> store" where
  "joinBody d c st =
     (case docRef (roomCode_d d) of
        Inl e \<Rightarrow> Inl e
      | Inr roomRef \<Rightarrow>
          (case getDoc st roomRef of
             Some roomData \<Rightarrow>
               if status roomData \<noteq> Lobby then Inl AlreadyStarted
               else
                 (let newPlayer =
                        \<lparr>player_id = Some (userId c), name = Some (playerName d),
                         score = 0, answers = []\<rparr>
                  in case updateDoc st roomRef (UpdPlayer (userId c) newPlayer) of
                       Inl e \<Rightarrow> Inl e
                     | Inr st1 \<Rightarrow>
                         Inr (c\<lparr>roomCode := roomCode_d d, userName := playerName d,
                                isHost := False, page := PLobby\<rparr>, st1))
           | None \<Rightarrow> Inl NotFound))"

text \<open>
  \<^verbatim>\<open>handleJoinQuiz(data)\<close>: the \<^verbatim>\<open>catch\<close> turns the error into the message shown
  and does not rethrow.
\<close>

definition handleJoinQuiz :: "join_data \<Rightarrow> app \<Rightarrow> store \<Rightarrow> app \<times> store" where
  "handleJoinQuiz d c st =
     (let c0 = c\<lparr>isLoading := True, error := []\<rparr>
      in case joinBody d c0 st of
           Inl e \<Rightarrow> (c0\<lparr>error := message e, isLoading := False\<rparr>, st)
         | Inr (c1, st1) \<Rightarrow> (c1\<lparr>isLoading := False\<rparr>, st1))"

subsection \<open>Starting the quiz\<close>

text \<open>\<^verbatim>\<open>handleStartQuiz()\<close>: one update of \<^verbatim>\<open>status\<close>, whatever it was.\<close>

definition handleStartQuiz :: "app \<Rightarrow> store \<Rightarrow> app \<times> store" where
  "handleStartQuiz c st =
     (let c0 = c\<lparr>isLoading := True\<rparr>
      in case docRef (roomCode c) of
           Inl e \<Rightarrow> (c0\<lparr>error := ''Could not start the quiz.'', isLoading := False\<rparr>, st)
         | Inr roomDocRef \<Rightarrow>
             (case updateDoc st roomDocRef (UpdStatus InProgress) of
                Inl e \<Rightarrow>
                  (c0\<lparr>error := ''Could not start the quiz.'', isLoading := False\<rparr>, st)
              | Inr st1 \<Rightarrow> (c0\<lparr>isLoading := False\<rparr>, st1)))"

subsection \<open>Submitting an answer\<close>

text \<open>
  \<^verbatim>\<open>handleAnswerSubmit(answer)\<close> is an \<^verbatim>\<open>async\<close> function: it runs up to
  \<^verbatim>\<open>await updateDoc(...)\<close>, where the write of the answers and the score is issued, and
  the rest runs when the write is acknowledged. \<open>submitBegin\<close> is the first part. What
  the rest reads from the closure (\<^verbatim>\<open>currentQuestionIndex\<close>,
  \<^verbatim>\<open>quizData.questions.length\<close>, \<^verbatim>\<open>roomRef\<close>) is kept in a \<open>resumption\<close>.
\<close>

record resumption =
  k_index :: nat
  k_count :: nat
  k_room :: string

datatype suspended = Returned | Threw failure | Awaiting resumption

definition submitBegin :: "string \<Rightarrow> app \<Rightarrow> store \<Rightarrow> app \<times> store \<times> suspended" where
  "submitBegin ans c st =
     (case quizData c of
        None \<Rightarrow> (c, st, Returned)
      | Some qd \<Rightarrow>
          if length (questions qd) \<le> currentQuestionIndex c then (c, st, Threw TypeError)
          else
            (let currentQuestion = questions qd ! currentQuestionIndex c;
                 correct = (ans = correctAnswer currentQuestion);
                 scoreIncrement = (if correct then 10 else 0);
                 newAnswer = \<lparr>questionIndex = currentQuestionIndex c, answer = ans,
                              isCorrect = correct\<rparr>;
                 updatedAnswers = userAnswers c @ [newAnswer];
                 c1 = c\<lparr>userAnswers := updatedAnswers\<rparr>;
                 currentScore = (case players qd (userId c) of None \<Rightarrow> 0 | Some p \<Rightarrow> score p)
             in case docRef (roomCode c) of
                  Inl e \<Rightarrow> (c1, st, Threw e)
                | Inr roomRef \<Rightarrow>
                    (case updateDoc st roomRef
                            (UpdAnswersAndScore (userId c) updatedAnswers
                               (currentScore + scoreIncrement)) of
                       Inl e \<Rightarrow> (c1, st, Threw e)
                     | Inr st1 \<Rightarrow>
                         (c1, st1,
                          Awaiting \<lparr>k_index = currentQuestionIndex c,
                                    k_count = length (questions qd), k_room = roomRef\<rparr>))))"

text \<open>
  The part after the \<^verbatim>\<open>await\<close>. \<^verbatim>\<open>setCurrentQuestionIndex(prev => prev + 1)\<close> adds
  to the index the component has then; the test is on the index of the closure.
\<close>

definition submitResume :: "resumption \<Rightarrow> app \<Rightarrow> store \<Rightarrow> app \<times> store \<times> failure option" where
  "submitResume k c st =
     (if int (k_index k) < int (k_count k) - 1
      then (c\<lparr>currentQuestionIndex := currentQuestionIndex c + 1, selectedAnswer := None\<rparr>,
            st, None)
      else
        (case updateDoc st (k_room k) (UpdStatus Finished) of
           Inl e \<Rightarrow> (c, st, Some e)
         | Inr st1 \<Rightarrow> (c\<lparr>quizFinished := True, page := PResults\<rparr>, st1, None)))"

text \<open>The call that nothing interrupts: the write is acknowledged at once.\<close>

definition handleAnswerSubmit ::
  "string \<Rightarrow> app \<Rightarrow> store \<Rightarrow> app \<times> store \<times> failure option" where
  "handleAnswerSubmit ans c st =
     (case submitBegin ans c st of
        (c1, st1, Returned) \<Rightarrow> (c1, st1, None)
      | (c1, st1, Threw e) \<Rightarrow> (c1, st1, Some e)
      | (c1, st1, Awaiting k) \<Rightarrow> submitResume k c1 st1)"

subsection \<open>The quiz page\<close>

text \<open>
  \<^verbatim>\<open>onClick={() => handleButtonClick(selectedAnswer)}\<close> on a button that is disabled
  only while \<^verbatim>\<open>selectedAnswer === null\<close>.
\<close>

definition handleButtonClick :: "app \<Rightarrow> store \<Rightarrow> app \<times> store \<times> suspended" where
  "handleButtonClick c st =
     (case selectedAnswer c of
        None \<Rightarrow> (c, st, Returned)
      | Some a \<Rightarrow> submitBegin a c st)"

text \<open>
  The callback of \<^verbatim>\<open>setInterval\<close>, on \<^verbatim>\<open>timeLeft = prev\<close>: at \<^verbatim>\<open>prev <= 1\<close> it
  clears its interval, submits \<^verbatim>\<open>'No Answer'\<close> and leaves 0; otherwise it counts down.
  The second component says whether the interval still runs.
\<close>

definition timerTick ::
  "int \<Rightarrow> app \<Rightarrow> store \<Rightarrow> (int \<times> bool) \<times> app \<times> store \<times> suspended option" where
  "timerTick prev c st =
     (if prev \<le> 1
      then (case submitBegin ''No Answer'' c st of (c1, st1, s) \<Rightarrow> ((0, False), c1, st1, Some s))
      else ((prev - 1, True), c, st, None))"

subsection \<open>The room listener\<close>

text \<open>
  The callback of \<^verbatim>\<open>onSnapshot\<close>; \<^verbatim>\<open>page\<close> and \<^verbatim>\<open>quizFinished\<close> are read from the
  render that subscribed.
\<close>

definition onRoomSnapshot :: "room_doc option \<Rightarrow> app \<Rightarrow> app" where
  "onRoomSnapshot snap c =
     (case snap of
        Some data \<Rightarrow>
          (let c1 = c\<lparr>quizData := Some data\<rparr>;
               c2 = (if status data = InProgress \<and> page c \<noteq> PQuiz
                     then c1\<lparr>quizFinished := False, currentQuestionIndex := 0,
                             userAnswers := [], page := PQuiz\<rparr>
                     else c1)
           in if status data = Finished \<and> \<not> quizFinished c
              then c2\<lparr>quizFinished := True, page := PResults\<rparr>
              else c2)
      | None \<Rightarrow> c\<lparr>error := ''Quiz room not found.'', roomCode := [], page := PHome\<rparr>)"

subsection \<open>Leaving a room\<close>

text \<open>\<^verbatim>\<open>handleReturnHome()\<close>, the button of the results page.\<close>

definition handleReturnHome :: "app \<Rightarrow> app" where
  "handleReturnHome c =
     c\<lparr>page := PHome, roomCode := [], quizData := None, isHost := False, error := [],
       quizFinished := False\<rparr>"

subsection \<open>Characters of a room code\<close>

text \<open>
  The digits of a base-36 rendering, \<^verbatim>\<open>0\<close> to \<^verbatim>\<open>9\<close> and \<^verbatim>\<open>a\<close> to \<^verbatim>\<open>z\<close>, and the
  characters of an upper-case alphanumeric code, \<^verbatim>\<open>0\<close> to \<^verbatim>\<open>9\<close> and \<^verbatim>\<open>A\<close> to \<^verbatim>\<open>Z\<close>.
\<close>

definition isUpperAlnum :: "char \<Rightarrow> bool" where
  "isUpperAlnum ch =
     (let n = (of_char ch :: nat) in (48 \<le> n \<and> n \<le> 57) \<or> (65 \<le> n \<and> n \<le> 90))"

definition isBase36Digit :: "char \<Rightarrow> bool" where
  "isBase36Digit ch =
     (let n = (of_char ch :: nat) in (48 \<le> n \<and> n \<le> 57) \<or> (97 \<le> n \<and> n \<le> 122))"

subsection \<open>Reading the store\<close>

definition roomStatus :: "store \<Rightarrow> string \<Rightarrow> status option" where
  "roomStatus st code = map_option status (getDoc st code)"

definition storedPlayer :: "store \<Rightarrow> string \<Rightarrow> string \<Rightarrow> player_doc option" where
  "storedPlayer st code uid = (case getDoc st code of None \<Rightarrow> None | Some d \<Rightarrow> players d uid)"

text \<open>
  The score a client sees for itself in its last snapshot:
  \<^verbatim>\<open>quizData.players[userId]?.score || 0\<close>.
\<close>

definition observedScore :: "room_doc \<Rightarrow> string \<Rightarrow> int" where
  "observedScore qd uid = (case players qd uid of None \<Rightarrow> 0 | Some p \<Rightarrow> score p)"

text \<open>
  An identifier that is one segment of a field path: no dot, none of the characters the
  library refuses, not empty. The identifiers of anonymous users are of this kind.
\<close>

definition oneSegment :: "string \<Rightarrow> bool" where
  "oneSegment uid = (fieldPath uid = Some [uid])"

text \<open>The award and the Answer the specification describes for a submission.\<close>

definition award :: "bool \<Rightarrow> int" where
  "award correct = (if correct then 10 else 0)"

definition answerOf :: "room_doc \<Rightarrow> nat \<Rightarrow> string \<Rightarrow> answer_doc" where
  "answerOf qd i a =
     \<lparr>questionIndex = i, answer = a, isCorrect = (a = correctAnswer (questions qd ! i))\<rparr>"


subsection \<open>A session\<close>

definition ocean1 :: question_doc where
  "ocean1 = \<lparr>question = ''Which ocean is the largest?'',
     options = [''Pacific'', ''Atlantic'', ''Indian'', ''Arctic''],
     correctAnswer = ''Pacific'', explanation = ''It covers a third of the surface.''\<rparr>"

definition ocean2 :: question_doc where
  "ocean2 = \<lparr>question = ''Which ocean lies between Europe and America?'',
     options = [''Pacific'', ''Atlantic'', ''Indian'', ''Arctic''],
     correctAnswer = ''Atlantic'', explanation = ''The Atlantic separates them.''\<rparr>"

definition oceans :: settings where
  "oceans = \<lparr>topic_s = ''Oceans'', difficulty_s = ''Medium'', numQuestions = ''3'',
     timer_s = 30, hostName = ''Ada''\<rparr>"

text \<open>The initial values of the \<^verbatim>\<open>useState\<close> calls, for the user \<open>uid\<close>.\<close>

definition fresh :: "string \<Rightarrow> app" where
  "fresh uid = \<lparr>page = PHome, isLoading = False, error = [], userId = uid, userName = [],
     isHost = False, roomCode = [], quizData = None, currentQuestionIndex = 0,
     selectedAnswer = None, userAnswers = [], quizFinished = False\<rparr>"

text \<open>A room and a client in the middle of a quiz of two questions.\<close>

definition seaRoom :: "status \<Rightarrow> (string \<rightharpoonup> player_doc) \<Rightarrow> room_doc" where
  "seaRoom s ps = \<lparr>topic = ''Oceans'', difficulty = ''Medium'', timer = 30, status = s,
     hostId = ''ada'', createdAt = 0, questions = [ocean1, ocean2], players = ps,
     deeper = Map.empty\<rparr>"

definition entry :: "string \<Rightarrow> string \<Rightarrow> int \<Rightarrow> answer_doc list \<Rightarrow> player_doc" where
  "entry uid n sc as = \<lparr>player_id = Some uid, name = Some n, score = sc, answers = as\<rparr>"

definition playing :: "string \<Rightarrow> room_doc \<Rightarrow> nat \<Rightarrow> answer_doc list \<Rightarrow> app" where
  "playing uid snap i as = (fresh uid)\<lparr>page := PQuiz, roomCode := ''SEA42'',
     quizData := Some snap, currentQuestionIndex := i, userAnswers := as\<rparr>"

text \<open>Ada creates a room of one question in an empty store.\<close>

definition adaCreates :: "app \<times> store \<times> failure option" where
  "adaCreates =
     handleCreateQuiz oceans ''0.4fzyo82mvyr'' (QuestionArray [ocean1]) 0
       ((fresh ''ada'')\<lparr>page := PCreate\<rparr>) Map.empty"

definition hostInLobby :: app where
  "hostInLobby = fst adaCreates"

definition newStore :: store where
  "newStore = fst (snd adaCreates)"



text \<open>Bo's form, filled in for the room \<open>SEA42\<close>.\<close>

definition boJoins :: join_data where
  "boJoins = \<lparr>roomCode_d = ''SEA42'', playerName = ''Bo''\<rparr>"

text \<open>
  Bo on the first of the two questions, with an option selected and not yet submitted,
  and the store that holds the room.
\<close>

definition boPicks :: app where
  "boPicks =
     (playing ''bo'' (seaRoom InProgress [''bo'' \<mapsto> entry ''bo'' ''Bo'' 0 []]) 0 [])
       \<lparr>selectedAnswer := Some ''Pacific''\<rparr>"

definition seaStore :: store where
  "seaStore = [''SEA42'' \<mapsto> seaRoom InProgress [''bo'' \<mapsto> entry ''bo'' ''Bo'' 0 []]]"

text \<open>
  Submissions one after the other, each acknowledged before the next is made: the
  calls of \<open>handleAnswerSubmit\<close> in a row, on the state and the store the previous one
  left.
\<close>

fun submitEach :: "string list \<Rightarrow> app \<Rightarrow> store \<Rightarrow> app \<times> store" where
  "submitEach [] c st = (c, st)"
| "submitEach (a # as) c st =
     (case handleAnswerSubmit a c st of (c1, st1, e) \<Rightarrow> submitEach as c1 st1)"

text \<open>
  A user whose identifier comes from a custom token and has a dot, or a slash, in it.
  As a host the user has an entry under the whole identifier, written by
  \<^verbatim>\<open>handleCreateQuiz\<close>.
\<close>

definition dottedRoom :: "status \<Rightarrow> room_doc" where
  "dottedRoom s = seaRoom s [''a.b'' \<mapsto> entry ''a.b'' ''Ada'' 0 []]"


definition annJoins :: join_data where
  "annJoins = \<lparr>roomCode_d = ''SEA42'', playerName = ''Ann''\<rparr>"

subsection \<open>The clients of a store\<close>


text \<open>
  When the two operations can be called. \<^verbatim>\<open>handleStartQuiz\<close> is the \<^verbatim>\<open>onStart\<close> of
  \<^verbatim>\<open>LobbyPage\<close>, which \<^verbatim>\<open>renderPage\<close> shows for \<^verbatim>\<open>page === 'lobby'\<close> when
  \<^verbatim>\<open>isLoading\<close> is false; the page shows the button to the host, once it has a snapshot,
  and enables it when the snapshot has a player. \<^verbatim>\<open>handleAnswerSubmit\<close> is the
  \<^verbatim>\<open>onSubmit\<close> of \<^verbatim>\<open>QuizPage\<close>, shown for \<^verbatim>\<open>page === 'quiz'\<close>; its button and its
  countdown exist when the snapshot has the current question.
\<close>

definition startOffered :: "app \<Rightarrow> bool" where
  "startOffered c =
     (\<not> isLoading c \<and> page c = PLobby \<and> isHost c \<and>
      (case quizData c of
         None \<Rightarrow> False
       | Some qd \<Rightarrow> players qd \<noteq> Map.empty \<or> deeper qd \<noteq> Map.empty))"

definition submitOffered :: "app \<Rightarrow> bool" where
  "submitOffered c =
     (\<not> isLoading c \<and> page c = PQuiz \<and>
      (case quizData c of
         None \<Rightarrow> False
       | Some qd \<Rightarrow> currentQuestionIndex c < length (questions qd)))"

text \<open>
  The room listener of a client: subscribed when \<^verbatim>\<open>roomCode\<close> is not empty, to the
  document the code refers to, and called with that document as the store has it.
\<close>

definition deliver :: "app \<Rightarrow> store \<Rightarrow> app" where
  "deliver c st =
     (if roomCode c = [] then c
      else (case docRef (roomCode c) of
              Inl e \<Rightarrow> c
            | Inr roomDocRef \<Rightarrow> onRoomSnapshot (getDoc st roomDocRef) c))"

text \<open>
  A store with its clients, numbered. An event is a call of one of the two operations
  by a client to which it is offered, or the delivery of a snapshot to a client. The
  listener of the client that writes is called with the document as its own write
  leaves it; the other clients get theirs by \<open>Deliver\<close>, at any later time.
\<close>

type_synonym system = "store \<times> (nat \<Rightarrow> app)"

datatype event = Start nat | Submit nat string | Deliver nat

fun step :: "event \<Rightarrow> system \<Rightarrow> system" where
  "step (Start i) (st, cs) =
     (if startOffered (cs i)
      then (case handleStartQuiz (cs i) st of
              (c1, st1) \<Rightarrow> (st1, cs(i := deliver c1 st1)))
      else (st, cs))"
| "step (Submit i a) (st, cs) =
     (if submitOffered (cs i)
      then (case handleAnswerSubmit a (cs i) st of
              (c1, st1, e) \<Rightarrow> (st1, cs(i := deliver c1 st1)))
      else (st, cs))"
| "step (Deliver i) (st, cs) = (st, cs(i := deliver (cs i) st))"

fun run :: "event list \<Rightarrow> system \<Rightarrow> system" where
  "run [] s = s"
| "run (e # es) s = run es (step e s)"

text \<open>
  The states the application reaches. The status a client would read for its room;
  then: a host on the lobby page has a room that is in \<open>Lobby\<close> (or none), no two hosts
  on the lobby page have the same room, and a client on the quiz page has a room that
  has left \<open>Lobby\<close>. Creation puts the host on the lobby page of a new room in \<open>Lobby\<close>;
  a join makes the client a guest; the quiz page is entered on a snapshot that is
  \<open>InProgress\<close>.
\<close>

definition statusSeen :: "store \<Rightarrow> app \<Rightarrow> status option" where
  "statusSeen st c =
     (case docRef (roomCode c) of Inl e \<Rightarrow> None | Inr key \<Rightarrow> roomStatus st key)"

definition lobbyHost :: "app \<Rightarrow> bool" where
  "lobbyHost c = (page c = PLobby \<and> isHost c)"

definition consistent :: "system \<Rightarrow> bool" where
  "consistent s =
     (case s of (st, cs) \<Rightarrow>
        (\<forall>i. lobbyHost (cs i) \<longrightarrow> statusSeen st (cs i) = None \<or> statusSeen st (cs i) = Some Lobby)
      \<and> (\<forall>i j. i \<noteq> j \<and> lobbyHost (cs i) \<and> lobbyHost (cs j) \<longrightarrow>
               docRef (roomCode (cs i)) \<noteq> docRef (roomCode (cs j))
             \<or> statusSeen st (cs i) = None)
      \<and> (\<forall>i. page (cs i) = PQuiz \<longrightarrow> statusSeen st (cs i) \<noteq> Some Lobby))"



section \<open>Properties\<close>

subsection \<open>Paths of plain codes and identifiers\<close>

lemma splitOn_without_sep: "sep \<notin> set s \<Longrightarrow> splitOn sep s = [s]"
  by (induction s) auto

lemma splitOn_not_Nil: "splitOn sep s \<noteq> []"
  by (induction s) (auto split: list.split)

lemma splitOn_single: "splitOn sep s = [k] \<Longrightarrow> k = s \<and> sep \<notin> set s"
proof (induction s arbitrary: k)
  case Nil
  then show ?case by simp
next
  case (Cons ch cs)
  show ?case
  proof (cases "ch = sep")
    case True
    with Cons.prems show ?thesis by (simp add: splitOn_not_Nil)
  next
    case False
    with Cons.prems obtain s where "splitOn sep cs = [s]" and "k = ch # s"
      by (auto simp add: splitOn_not_Nil split: list.splits)
    with Cons.IH False show ?thesis by auto
  qed
qed

lemma oneSegment_splitOn: "oneSegment uid \<Longrightarrow> splitOn (CHR ''.'') uid = [uid]"
  by (simp add: oneSegment_def fieldPath_def split: if_splits)

lemma oneSegment_valid: "oneSegment uid \<Longrightarrow> fieldPath uid \<noteq> None"
  by (simp add: oneSegment_def)

lemma oneSegment_bo: "oneSegment ''bo''" and oneSegment_ada: "oneSegment ''ada''"
  by (simp_all add: oneSegment_def fieldPath_def reservedChar_def)

lemma docRef_SEA42: "docRef ''SEA42'' = Inr ''SEA42''"
  by (simp add: docRef_def refusedId_def)


subsection \<open>What one submission writes\<close>

lemma setAnswersAndScore_oneSegment:
  assumes "oneSegment uid"
  shows "setAnswersAndScore uid as sc d =
     d\<lparr>players := (players d)(uid \<mapsto>
        (case players d uid of
           None \<Rightarrow> \<lparr>player_id = None, name = None, score = sc, answers = as\<rparr>
         | Some p \<Rightarrow> p\<lparr>answers := as, score := sc\<rparr>))\<rparr>"
  by (simp add: setAnswersAndScore_def oneSegment_splitOn [OF assms])

lemma setPlayer_oneSegment:
  assumes "oneSegment uid"
  shows "players (setPlayer uid p d) = (players d)(uid \<mapsto> p)
     \<and> status (setPlayer uid p d) = status d \<and> questions (setPlayer uid p d) = questions d"
  by (simp add: setPlayer_def oneSegment_splitOn [OF assms])

lemma setAnswersAndScore_frame [simp]:
  "status (setAnswersAndScore uid as sc d) = status d"
  "questions (setAnswersAndScore uid as sc d) = questions d"
  by (simp_all add: setAnswersAndScore_def split: list.split option.split deep_value.split)

lemma setStatus_fields [simp]:
  "status (setStatus s d) = s"
  "questions (setStatus s d) = questions d"
  "players (setStatus s d) = players d"
  by (simp_all add: setStatus_def)

lemma setAnswersAndScore_player:
  assumes "oneSegment uid"
  shows "players (setAnswersAndScore uid as sc d) uid \<noteq> None
   \<and> answers (the (players (setAnswersAndScore uid as sc d) uid)) = as
   \<and> score (the (players (setAnswersAndScore uid as sc d) uid)) = sc"
  by (simp add: setAnswersAndScore_oneSegment [OF assms] split: option.split)

lemma submitBegin_room:
  assumes "quizData c = Some qd" and "currentQuestionIndex c < length (questions qd)"
    and "docRef (roomCode c) = Inr key" and "getDoc st key = Some room"
    and "fieldPath (userId c) \<noteq> None"
  shows "submitBegin a c st =
    (c\<lparr>userAnswers := userAnswers c @ [answerOf qd (currentQuestionIndex c) a]\<rparr>,
     st(key \<mapsto> setAnswersAndScore (userId c)
          (userAnswers c @ [answerOf qd (currentQuestionIndex c) a])
          (observedScore qd (userId c) +
             award (a = correctAnswer (questions qd ! currentQuestionIndex c))) room),
     Awaiting \<lparr>k_index = currentQuestionIndex c, k_count = length (questions qd),
               k_room = key\<rparr>)"
  using assms
  by (simp add: submitBegin_def updateDoc_def getDoc_def Let_def answerOf_def
      observedScore_def award_def)

lemma submitResume_room:
  assumes "getDoc st (k_room k) = Some room"
  shows "submitResume k c st =
     (if int (k_index k) < int (k_count k) - 1
      then (c\<lparr>currentQuestionIndex := currentQuestionIndex c + 1, selectedAnswer := None\<rparr>,
            st, None)
      else (c\<lparr>quizFinished := True, page := PResults\<rparr>,
            st(k_room k \<mapsto> setStatus Finished room), None))"
  using assms by (simp add: submitResume_def updateDoc_def getDoc_def)

text \<open>The whole call on a room that exists, for a client that has the question.\<close>

lemma handleAnswerSubmit_room:
  assumes "quizData c = Some qd" and "currentQuestionIndex c < length (questions qd)"
    and "docRef (roomCode c) = Inr key" and "getDoc st key = Some room"
    and "fieldPath (userId c) \<noteq> None"
  shows "\<exists>c'. handleAnswerSubmit a c st =
    (c',
     st(key \<mapsto>
       (if int (currentQuestionIndex c) < int (length (questions qd)) - 1 then (\<lambda>d. d)
        else setStatus Finished)
         (setAnswersAndScore (userId c)
            (userAnswers c @ [answerOf qd (currentQuestionIndex c) a])
            (observedScore qd (userId c) +
               award (a = correctAnswer (questions qd ! currentQuestionIndex c))) room)),
     None)
    \<and> userAnswers c' = userAnswers c @ [answerOf qd (currentQuestionIndex c) a]"
proof -
  let ?st1 = "st(key \<mapsto> setAnswersAndScore (userId c)
          (userAnswers c @ [answerOf qd (currentQuestionIndex c) a])
          (observedScore qd (userId c) +
             award (a = correctAnswer (questions qd ! currentQuestionIndex c))) room)"
  have "getDoc ?st1 key = Some (setAnswersAndScore (userId c)
          (userAnswers c @ [answerOf qd (currentQuestionIndex c) a])
          (observedScore qd (userId c) +
             award (a = correctAnswer (questions qd ! currentQuestionIndex c))) room)"
    by (simp add: getDoc_def)
  then show ?thesis
    by (simp add: handleAnswerSubmit_def submitBegin_room [OF assms] submitResume_room)
qed

subsection \<open>Room codes\<close>

lemma upperChar_base36: "isBase36Digit ch \<Longrightarrow> isUpperAlnum (upperChar ch)"
  unfolding isBase36Digit_def isUpperAlnum_def upperChar_def Let_def by auto

lemma upperChar_idem: "upperChar (upperChar ch) = upperChar ch"
  unfolding upperChar_def Let_def by auto

lemma toUpperCase_idem: "toUpperCase (toUpperCase s) = toUpperCase s"
  by (simp add: toUpperCase_def upperChar_idem)

text \<open>A code never has more than five characters.\<close>

lemma generateRoomCode_at_most_5: "length (generateRoomCode r) \<le> 5"
  by (simp add: generateRoomCode_def toUpperCase_def substring_def)

text \<open>
  When the rendering has five digits or more after \<^verbatim>\<open>0.\<close>, the code is five upper-case
  letters and digits.
\<close>

lemma generateRoomCode_of_long_rendering:
  assumes "7 \<le> length r" and "list_all isBase36Digit (drop 2 r)"
  shows "length (generateRoomCode r) = 5 \<and> list_all isUpperAlnum (generateRoomCode r)"
proof -
  from assms(1) have "length (generateRoomCode r) = 5"
    by (simp add: generateRoomCode_def toUpperCase_def substring_def)
  moreover have "list_all isUpperAlnum (generateRoomCode r)"
    using assms(2)
    by (auto simp add: generateRoomCode_def toUpperCase_def substring_def list_all_iff
        intro: upperChar_base36 dest: in_set_takeD)
  ultimately show ?thesis by simp
qed

text \<open>
  The join form keeps the room code in upper case: what is typed into the input named
  \<^verbatim>\<open>roomCode\<close> is stored through \<open>toUpperCase\<close>, which leaves its own results alone, and
  that stored value is the code \<^verbatim>\<open>handleJoinQuiz\<close> looks up.
\<close>

lemma joinHandleChange_uppercases:
  "roomCode_d (joinHandleChange ''roomCode'' v d) = toUpperCase v
   \<and> toUpperCase (roomCode_d (joinHandleChange ''roomCode'' v d))
       = roomCode_d (joinHandleChange ''roomCode'' v d)"
  by (simp add: joinHandleChange_def toUpperCase_idem)

text \<open>
  C8. A code has five characters only when the rendering of the random number has five
  digits after the point. For the random number 0.5 the rendering is \<^verbatim>\<open>0.i\<close> and the
  code is the one character \<^verbatim>\<open>I\<close>; for 0 the rendering is \<^verbatim>\<open>0\<close> and the code is empty.
\<close>

theorem short_rendering_gives_short_code:
  "generateRoomCode ''0.i'' = ''I'' \<and> length (generateRoomCode ''0.i'') = 1
   \<and> generateRoomCode ''0'' = []"
  by code_simp


subsection \<open>The last question finishes the room\<close>





subsection \<open>Marking, scoring and recording an answer\<close>

text \<open>
  C3, as the code has it. A client that has the question at its index, and whose user
  identifier is one segment of a field path, submits \<open>a\<close> to a room that exists (in any
  status, \<open>InProgress\<close> among them). The Answer recorded has \<open>isCorrect\<close> equal to the
  equality of \<open>a\<close> and the question's \<open>correctAnswer\<close>. The player's stored entry gets
  the client's own answers with this Answer appended, and the score of the client's last
  snapshot plus 10 when correct and plus 0 otherwise: both are written over what the
  store held. Where the client's view of its own entry is the stored entry, that is the
  stored score plus the award and the stored answers with the Answer appended, the rest
  of the entry unchanged.
\<close>

theorem submitAnswer_marks_and_overwrites:
  assumes "quizData c = Some qd"
    and "currentQuestionIndex c < length (questions qd)"
    and "docRef (roomCode c) = Inr key"
    and "getDoc st key = Some room"
    and "oneSegment (userId c)"
  shows "\<exists>c' st' p'.
           handleAnswerSubmit a c st = (c', st', None)
         \<and> storedPlayer st' key (userId c) = Some p'
         \<and> isCorrect (last (answers p')) =
             (a = correctAnswer (questions qd ! currentQuestionIndex c))
         \<and> answers p' = userAnswers c @
             [\<lparr>questionIndex = currentQuestionIndex c, answer = a,
               isCorrect = (a = correctAnswer (questions qd ! currentQuestionIndex c))\<rparr>]
         \<and> score p' = observedScore qd (userId c) +
             (if a = correctAnswer (questions qd ! currentQuestionIndex c) then 10 else 0)
         \<and> userAnswers c' = answers p'
         \<and> (\<forall>p. players room (userId c) = Some p \<and> players qd (userId c) = Some p
                 \<and> userAnswers c = answers p \<longrightarrow>
               p' = p\<lparr>answers := answers p @ [answerOf qd (currentQuestionIndex c) a],
                      score := score p +
                        award (a = correctAnswer (questions qd ! currentQuestionIndex c))\<rparr>)"
proof -
  let ?new = "answerOf qd (currentQuestionIndex c) a"
  let ?sc = "observedScore qd (userId c) +
               award (a = correctAnswer (questions qd ! currentQuestionIndex c))"
  let ?written = "setAnswersAndScore (userId c) (userAnswers c @ [?new]) ?sc room"
  from handleAnswerSubmit_room
         [OF assms(1-4) oneSegment_valid [OF assms(5)], of a]
  obtain c' st' room' where run: "handleAnswerSubmit a c st = (c', st', None)"
    and st': "getDoc st' key = Some room'"
    and pl: "players room' = players ?written"
    and ua: "userAnswers c' = userAnswers c @ [?new]"
    by (cases "int (currentQuestionIndex c) < int (length (questions qd)) - 1")
       (auto simp add: getDoc_def)
  from setAnswersAndScore_player [OF assms(5), of "userAnswers c @ [?new]" ?sc room]
  obtain p' where p': "players ?written (userId c) = Some p'"
    and as: "answers p' = userAnswers c @ [?new]" and sc: "score p' = ?sc"
    by auto
  have sync: "p' = p\<lparr>answers := answers p @ [?new],
                      score := score p +
                        award (a = correctAnswer (questions qd ! currentQuestionIndex c))\<rparr>"
    if "players room (userId c) = Some p" "players qd (userId c) = Some p"
       "userAnswers c = answers p" for p
    using that p'
    by (simp add: setAnswersAndScore_oneSegment [OF assms(5)] observedScore_def)
  from run st' pl ua p' as sc sync show ?thesis
    by (simp add: storedPlayer_def answerOf_def award_def)
qed

theorem submitAnswer_marks_and_overwrites_witness:
  "\<exists>c' st' p'.
      handleAnswerSubmit ''Pacific''
        (playing ''bo'' (seaRoom InProgress [''bo'' \<mapsto> entry ''bo'' ''Bo'' 0 []]) 0 [])
        [''SEA42'' \<mapsto> seaRoom InProgress [''bo'' \<mapsto> entry ''bo'' ''Bo'' 0 []]]
        = (c', st', None)
    \<and> storedPlayer st' ''SEA42'' ''bo'' = Some p'
    \<and> p' = entry ''bo'' ''Bo'' 10
              [\<lparr>questionIndex = 0, answer = ''Pacific'', isCorrect = True\<rparr>]
    \<and> userAnswers c' = [\<lparr>questionIndex = 0, answer = ''Pacific'', isCorrect = True\<rparr>]"
proof -
  let ?room = "seaRoom InProgress [''bo'' \<mapsto> entry ''bo'' ''Bo'' 0 []]"
  let ?c = "playing ''bo'' ?room 0 []"
  have h1: "quizData ?c = Some ?room"
    and h2: "currentQuestionIndex ?c < length (questions ?room)"
    and h3: "docRef (roomCode ?c) = Inr ''SEA42''"
    and h4: "getDoc [''SEA42'' \<mapsto> ?room] ''SEA42'' = Some ?room"
    and h5: "oneSegment (userId ?c)"
    by (simp_all add: playing_def seaRoom_def fresh_def getDoc_def docRef_SEA42 oneSegment_bo)
  from submitAnswer_marks_and_overwrites [OF h1 h2 h3 h4 h5, of "''Pacific''"]
  show ?thesis
    by (simp add: playing_def seaRoom_def fresh_def entry_def ocean1_def ocean2_def
        answerOf_def award_def observedScore_def)
qed

text \<open>
  The claim as it is written fails: Bo has the quiz open in two tabs, both on the first
  question with the snapshot of the started room. The first tab submits the correct
  answer and the store holds score 10 and one answer. The second tab, before the
  snapshot of that write reaches it, submits the correct answer too: the store still
  holds score 10 and one answer, where adding 10 and appending would give 20 and two.
\<close>

theorem second_tab_overwrites_counterexample:
  "storedPlayer
     (fst (snd (handleAnswerSubmit ''Pacific'' (playing ''bo'' (seaRoom InProgress
        [''bo'' \<mapsto> entry ''bo'' ''Bo'' 0 []]) 0 []) seaStore)))
     ''SEA42'' ''bo''
     = Some (entry ''bo'' ''Bo'' 10
         [\<lparr>questionIndex = 0, answer = ''Pacific'', isCorrect = True\<rparr>])
   \<and> storedPlayer
     (fst (snd (handleAnswerSubmit ''Pacific'' (playing ''bo'' (seaRoom InProgress
        [''bo'' \<mapsto> entry ''bo'' ''Bo'' 0 []]) 0 [])
        (fst (snd (handleAnswerSubmit ''Pacific'' (playing ''bo'' (seaRoom InProgress
           [''bo'' \<mapsto> entry ''bo'' ''Bo'' 0 []]) 0 []) seaStore))))))
     ''SEA42'' ''bo''
     = Some (entry ''bo'' ''Bo'' 10
         [\<lparr>questionIndex = 0, answer = ''Pacific'', isCorrect = True\<rparr>])"
  by (simp add: handleAnswerSubmit_def submitBegin_def submitResume_def updateDoc_def
      docRef_SEA42 oneSegment_valid [OF oneSegment_bo]
      setAnswersAndScore_oneSegment [OF oneSegment_bo] storedPlayer_def getDoc_def
      seaStore_def playing_def seaRoom_def fresh_def entry_def ocean1_def ocean2_def Let_def)


subsection \<open>The score is written from the snapshot\<close>

text \<open>
  For a caller whose identifier is one segment of a field path, the score a submission
  stores is the score of the caller in its snapshot, 0 when the snapshot has no entry
  for it, plus the award. The stored document does not enter: the score it held is
  overwritten, not incremented.
\<close>

lemma score_overwritten_from_snapshot:
  assumes "quizData c = Some qd"
    and "currentQuestionIndex c < length (questions qd)"
    and "docRef (roomCode c) = Inr key"
    and "getDoc st key = Some room"
    and "oneSegment (userId c)"
  shows "\<exists>c' st' p'.
           handleAnswerSubmit a c st = (c', st', None)
         \<and> storedPlayer st' key (userId c) = Some p'
         \<and> score p' =
             (case players qd (userId c) of None \<Rightarrow> 0 | Some p \<Rightarrow> score p) +
             award (a = correctAnswer (questions qd ! currentQuestionIndex c))"
proof -
  let ?as = "userAnswers c @ [answerOf qd (currentQuestionIndex c) a]"
  let ?sc = "observedScore qd (userId c) +
               award (a = correctAnswer (questions qd ! currentQuestionIndex c))"
  from handleAnswerSubmit_room [OF assms(1-4) oneSegment_valid [OF assms(5)], of a]
  obtain c' st' room' where run: "handleAnswerSubmit a c st = (c', st', None)"
    and st': "getDoc st' key = Some room'"
    and pl: "players room' = players (setAnswersAndScore (userId c) ?as ?sc room)"
    by (cases "int (currentQuestionIndex c) < int (length (questions qd)) - 1")
       (auto simp add: getDoc_def)
  from setAnswersAndScore_player [OF assms(5), of ?as ?sc room]
  obtain p' where "players (setAnswersAndScore (userId c) ?as ?sc room) (userId c) = Some p'"
    and "score p' = ?sc"
    by auto
  with run st' pl show ?thesis
    by (simp add: storedPlayer_def observedScore_def)
qed

text \<open>
  C10. The host's identifier is \<^verbatim>\<open>a.b\<close>, so the host's entry, written by
  \<^verbatim>\<open>handleCreateQuiz\<close>, is under the key \<^verbatim>\<open>a.b\<close>. The host answers the first question
  correctly. The update names the field path \<^verbatim>\<open>players.a.b.score\<close>, which the store
  reads as three segments below \<^verbatim>\<open>players\<close>: the score 10 is written there, the call
  does not throw, and the host's entry keeps the score 0 it had.
\<close>

theorem dotted_identifier_score_not_stored:
  "snd (snd (handleAnswerSubmit ''Pacific'' (playing ''a.b'' (dottedRoom InProgress) 0 [])
        [''SEA42'' \<mapsto> dottedRoom InProgress]))
     = None
   \<and> storedPlayer
       (fst (snd (handleAnswerSubmit ''Pacific'' (playing ''a.b'' (dottedRoom InProgress) 0 [])
          [''SEA42'' \<mapsto> dottedRoom InProgress])))
       ''SEA42'' ''a.b''
     = Some (entry ''a.b'' ''Ada'' 0 [])
   \<and> map_option (\<lambda>d. deeper d [''a'', ''b'', ''score''])
       (getDoc (fst (snd (handleAnswerSubmit ''Pacific''
          (playing ''a.b'' (dottedRoom InProgress) 0 [])
          [''SEA42'' \<mapsto> dottedRoom InProgress]))) ''SEA42'')
     = Some (Some (DScore 10))"
  by (simp add: handleAnswerSubmit_def submitBegin_def submitResume_def updateDoc_def
      docRef_SEA42 fieldPath_def reservedChar_def setAnswersAndScore_def storedPlayer_def
      getDoc_def playing_def dottedRoom_def seaRoom_def fresh_def entry_def ocean1_def
      ocean2_def Let_def)

subsection \<open>Creating\<close>

lemma code_4FZYO: "generateRoomCode ''0.4fzyo82mvyr'' = ''4FZYO''"
  by code_simp

lemma adaCreates_eq:
  "adaCreates =
     ((fresh ''ada'')\<lparr>page := PLobby, roomCode := ''4FZYO'', userName := ''Ada'',
        isHost := True\<rparr>,
      [''4FZYO'' \<mapsto>
        \<lparr>topic = ''Oceans'', difficulty = ''Medium'', timer = 30, status = Lobby,
         hostId = ''ada'', createdAt = 0, questions = [ocean1],
         players = [''ada'' \<mapsto> entry ''ada'' ''Ada'' 0 []],
         deeper = Map.empty\<rparr>],
      None)"
  by (simp add: adaCreates_def handleCreateQuiz_def generateAIQuestions_def code_4FZYO
      setDoc_def oceans_def fresh_def entry_def Let_def)


text \<open>
  C6. After a call of \<^verbatim>\<open>handleCreateQuiz\<close> that does not throw, the room read under the
  client's new room code is in \<open>Lobby\<close> and its players are the one entry of the host:
  the host's identifier and name, score 0, no answers.
\<close>

theorem created_room_is_Lobby_with_host:
  assumes "handleCreateQuiz s r g now c st = (c', st', None)"
  shows "\<exists>room. getDoc st' (roomCode c') = Some room
         \<and> roomCode c' = generateRoomCode r
         \<and> status room = Lobby
         \<and> players room =
             [userId c \<mapsto> \<lparr>player_id = Some (userId c), name = Some (hostName s),
                             score = 0, answers = []\<rparr>]
         \<and> dom (players room) = {userId c}"
  using assms
  by (auto simp add: handleCreateQuiz_def setDoc_def getDoc_def Let_def split: sum.splits)

theorem created_room_is_Lobby_with_host_witness:
  "\<exists>room. getDoc newStore (roomCode hostInLobby) = Some room
      \<and> roomCode hostInLobby = ''4FZYO''
      \<and> status room = Lobby
      \<and> players room = [''ada'' \<mapsto> entry ''ada'' ''Ada'' 0 []]
      \<and> dom (players room) = {''ada''}"
proof -
  have run: "handleCreateQuiz oceans ''0.4fzyo82mvyr'' (QuestionArray [ocean1]) 0
      ((fresh ''ada'')\<lparr>page := PCreate\<rparr>) Map.empty = (hostInLobby, newStore, None)"
    using adaCreates_eq by (simp add: adaCreates_def hostInLobby_def newStore_def)
  from created_room_is_Lobby_with_host [OF run]
  show ?thesis
    by (simp add: code_4FZYO fresh_def oceans_def entry_def)
qed





subsection \<open>The order of the states\<close>







lemma statusSeen_update:
  "statusSeen (st(key \<mapsto> d)) c =
     (if docRef (roomCode c) = Inr key then Some (status d) else statusSeen st c)"
  by (simp add: statusSeen_def roomStatus_def getDoc_def split: sum.split)

lemma statusSeen_room:
  "docRef (roomCode c) = Inr key \<Longrightarrow> statusSeen st c = map_option status (st key)"
  by (simp add: statusSeen_def roomStatus_def getDoc_def)

text \<open>
  How the three conditions pass from a system to the next: client \<open>i\<close> becomes \<open>c'\<close> and
  the store becomes \<open>st'\<close>.
\<close>

lemma consistent_next:
  assumes con: "consistent (st, cs)"
    and seenH: "\<And>j. j \<noteq> i \<Longrightarrow> lobbyHost (cs j) \<Longrightarrow>
                  statusSeen st' (cs j) = statusSeen st (cs j)"
    and seenQ: "\<And>j. j \<noteq> i \<Longrightarrow> page (cs j) = PQuiz \<Longrightarrow>
                  statusSeen st' (cs j) \<noteq> Some Lobby"
    and host: "lobbyHost c' \<Longrightarrow>
                 lobbyHost (cs i) \<and> docRef (roomCode c') = docRef (roomCode (cs i))
                 \<and> statusSeen st' c' = statusSeen st (cs i)"
    and quiz: "page c' = PQuiz \<Longrightarrow> statusSeen st' c' \<noteq> Some Lobby"
  shows "consistent (st', cs(i := c'))"
proof -
  from con have J: "\<And>j. lobbyHost (cs j) \<Longrightarrow>
        statusSeen st (cs j) = None \<or> statusSeen st (cs j) = Some Lobby"
    and K: "\<And>a b. a \<noteq> b \<Longrightarrow> lobbyHost (cs a) \<Longrightarrow> lobbyHost (cs b) \<Longrightarrow>
        docRef (roomCode (cs a)) \<noteq> docRef (roomCode (cs b)) \<or> statusSeen st (cs a) = None"
    by (auto simp add: consistent_def)
  let ?cs = "cs(i := c')"
  have J': "statusSeen st' (?cs j) = None \<or> statusSeen st' (?cs j) = Some Lobby"
    if "lobbyHost (?cs j)" for j
  proof (cases "j = i")
    case True
    with that host J [of i] show ?thesis by auto
  next
    case False
    with that seenH [of j] J [of j] show ?thesis by auto
  qed
  have K': "docRef (roomCode (?cs a)) \<noteq> docRef (roomCode (?cs b))
            \<or> statusSeen st' (?cs a) = None"
    if ab: "a \<noteq> b" and hosts: "lobbyHost (?cs a)" "lobbyHost (?cs b)" for a b
  proof -
    from ab consider (a) "a = i" "b \<noteq> i" | (b) "b = i" "a \<noteq> i"
      | (n) "a \<noteq> i" "b \<noteq> i"
      by auto
    then show ?thesis
    proof cases
      case a
      with ab hosts host K [of i b] show ?thesis by auto
    next
      case b
      with ab hosts host K [of a i] seenH [of a] show ?thesis by auto
    next
      case n
      with ab hosts K [of a b] seenH [of a] show ?thesis by auto
    qed
  qed
  have L': "statusSeen st' (?cs j) \<noteq> Some Lobby" if "page (?cs j) = PQuiz" for j
    using that quiz seenQ [of j] by (cases "j = i") auto
  have J'': "\<forall>j. lobbyHost (?cs j) \<longrightarrow>
        statusSeen st' (?cs j) = None \<or> statusSeen st' (?cs j) = Some Lobby"
  proof (intro allI impI)
    fix j assume "lobbyHost (?cs j)"
    then show "statusSeen st' (?cs j) = None \<or> statusSeen st' (?cs j) = Some Lobby"
      by (rule J')
  qed
  have K'': "\<forall>a b. a \<noteq> b \<and> lobbyHost (?cs a) \<and> lobbyHost (?cs b) \<longrightarrow>
        docRef (roomCode (?cs a)) \<noteq> docRef (roomCode (?cs b))
        \<or> statusSeen st' (?cs a) = None"
  proof (intro allI impI, elim conjE)
    fix a b assume "a \<noteq> b" "lobbyHost (?cs a)" "lobbyHost (?cs b)"
    then show "docRef (roomCode (?cs a)) \<noteq> docRef (roomCode (?cs b))
        \<or> statusSeen st' (?cs a) = None"
      by (rule K')
  qed
  have L'': "\<forall>j. page (?cs j) = PQuiz \<longrightarrow> statusSeen st' (?cs j) \<noteq> Some Lobby"
  proof (intro allI impI)
    fix j assume "page (?cs j) = PQuiz"
    then show "statusSeen st' (?cs j) \<noteq> Some Lobby"
      by (rule L')
  qed
  show ?thesis
    unfolding consistent_def prod.case
    by (rule conjI [OF J'' conjI [OF K'' L'']])
qed





lemma consistentD:
  assumes "consistent (st, cs)"
  shows "lobbyHost (cs j) \<Longrightarrow> statusSeen st (cs j) = None \<or> statusSeen st (cs j) = Some Lobby"
    and "a \<noteq> b \<Longrightarrow> lobbyHost (cs a) \<Longrightarrow> lobbyHost (cs b) \<Longrightarrow>
           docRef (roomCode (cs a)) \<noteq> docRef (roomCode (cs b)) \<or> statusSeen st (cs a) = None"
    and "page (cs j) = PQuiz \<Longrightarrow> statusSeen st (cs j) \<noteq> Some Lobby"
  using assms by (auto simp add: consistent_def)











text \<open>
  The three conditions hold when every client is on the home page, and the handlers
  outside the quiz keep them: creation under a new code, which no other client is
  attached to, a join from the join page, and whatever leaves the store as it is and
  the client off the lobby page and the quiz page, as the return to the home page, the
  two buttons of the home page and a creation that throws do.
\<close>

lemma consistent_at_home: "consistent (st, \<lambda>i. fresh uid)"
  by (simp add: consistent_def lobbyHost_def fresh_def)

lemma consistent_after_create:
  assumes con: "consistent (st, cs)"
    and run: "handleCreateQuiz s r g now (cs i) st = (c', st', None)"
    and ref: "docRef (generateRoomCode r) = Inr (generateRoomCode r)"
    and new: "\<And>j. j \<noteq> i \<Longrightarrow> docRef (roomCode (cs j)) \<noteq> Inr (generateRoomCode r)"
  shows "consistent (st', cs(i := c'))"
proof -
  from run obtain room where c': "roomCode c' = generateRoomCode r" "page c' = PLobby"
    and st': "st' = st(generateRoomCode r \<mapsto> room)" and room: "status room = Lobby"
    by (auto simp add: handleCreateQuiz_def setDoc_def Let_def split: sum.splits)
  have mine: "statusSeen st' c' = Some Lobby"
    using ref c' room by (simp add: st' statusSeen_update)
  have others: "statusSeen st' (cs j) = statusSeen st (cs j)" if "j \<noteq> i" for j
    using new [OF that] by (simp add: st' statusSeen_update)
  let ?cs = "cs(i := c')"
  have J: "\<forall>j. lobbyHost (?cs j) \<longrightarrow>
        statusSeen st' (?cs j) = None \<or> statusSeen st' (?cs j) = Some Lobby"
    using mine others consistentD(1) [OF con] by auto
  have K: "\<forall>a b. a \<noteq> b \<and> lobbyHost (?cs a) \<and> lobbyHost (?cs b) \<longrightarrow>
        docRef (roomCode (?cs a)) \<noteq> docRef (roomCode (?cs b))
        \<or> statusSeen st' (?cs a) = None"
  proof (intro allI impI, elim conjE)
    fix a b assume ab: "a \<noteq> b" and hosts: "lobbyHost (?cs a)" "lobbyHost (?cs b)"
    from ab consider (a) "a = i" "b \<noteq> i" | (b) "b = i" "a \<noteq> i" | (n) "a \<noteq> i" "b \<noteq> i"
      by auto
    then show "docRef (roomCode (?cs a)) \<noteq> docRef (roomCode (?cs b))
        \<or> statusSeen st' (?cs a) = None"
    proof cases
      case a
      with new [of b] ref c' show ?thesis by auto
    next
      case b
      with new [of a] ref c' show ?thesis by auto
    next
      case n
      with ab hosts consistentD(2) [OF con, of a b] others [of a] show ?thesis by auto
    qed
  qed
  have L: "\<forall>j. page (?cs j) = PQuiz \<longrightarrow> statusSeen st' (?cs j) \<noteq> Some Lobby"
    using c'(2) others consistentD(3) [OF con] by auto
  show ?thesis
    unfolding consistent_def prod.case
    by (rule conjI [OF J conjI [OF K L]])
qed

lemma handleJoinQuiz_status:
  "statusSeen (snd (handleJoinQuiz d c st)) c0 = statusSeen st c0"
  by (auto simp add: handleJoinQuiz_def joinBody_def updateDoc_def getDoc_def Let_def
      statusSeen_update statusSeen_room setPlayer_def
      split: sum.splits option.splits list.splits)

lemma handleJoinQuiz_client:
  assumes "page c = PJoin"
  shows "\<not> lobbyHost (fst (handleJoinQuiz d c st))"
    and "page (fst (handleJoinQuiz d c st)) \<noteq> PQuiz"
  using assms
  by (auto simp add: handleJoinQuiz_def joinBody_def lobbyHost_def Let_def
      split: sum.splits option.splits)

lemma consistent_after_join:
  assumes con: "consistent (st, cs)" and "page (cs i) = PJoin"
  shows "consistent (snd (handleJoinQuiz d (cs i) st),
                     cs(i := fst (handleJoinQuiz d (cs i) st)))"
proof -
  let ?c' = "fst (handleJoinQuiz d (cs i) st)"
  let ?st' = "snd (handleJoinQuiz d (cs i) st)"
  have seenH: "statusSeen ?st' (cs j) = statusSeen st (cs j)" for j
    by (rule handleJoinQuiz_status)
  have seenQ: "statusSeen ?st' (cs j) \<noteq> Some Lobby" if "page (cs j) = PQuiz" for j
    using consistentD(3) [OF con that] by (simp add: handleJoinQuiz_status)
  have host: "lobbyHost (cs i) \<and> docRef (roomCode ?c') = docRef (roomCode (cs i))
        \<and> statusSeen ?st' ?c' = statusSeen st (cs i)" if "lobbyHost ?c'"
    using that handleJoinQuiz_client(1) [OF assms(2), of d st] by simp
  have quiz: "statusSeen ?st' ?c' \<noteq> Some Lobby" if "page ?c' = PQuiz"
    using that handleJoinQuiz_client(2) [OF assms(2), of d st] by simp
  show ?thesis
    by (rule consistent_next [OF con seenH seenQ host quiz])
qed

lemma consistent_elsewhere:
  assumes con: "consistent (st, cs)" and "page c' \<noteq> PLobby" and "page c' \<noteq> PQuiz"
  shows "consistent (st, cs(i := c'))"
proof -
  have seenQ: "statusSeen st (cs j) \<noteq> Some Lobby" if "page (cs j) = PQuiz" for j
    by (rule consistentD(3) [OF con that])
  have host: "lobbyHost (cs i) \<and> docRef (roomCode c') = docRef (roomCode (cs i))
        \<and> statusSeen st c' = statusSeen st (cs i)" if "lobbyHost c'"
    using that assms(2) by (simp add: lobbyHost_def)
  have quiz: "statusSeen st c' \<noteq> Some Lobby" if "page c' = PQuiz"
    using that assms(3) by simp
  show ?thesis
    by (rule consistent_next [OF con refl seenQ host quiz])
qed

lemma consistent_after_return_home:
  assumes "consistent (st, cs)"
  shows "consistent (st, cs(i := handleReturnHome (cs i)))"
  by (rule consistent_elsewhere [OF assms]) (simp_all add: handleReturnHome_def)


subsection \<open>Joining\<close>

lemma docRef_slash: "docRef ''A/B'' = Inl InvalidReference"
  by (simp add: docRef_def refusedId_def)

text \<open>
  C4, as the code has it. Joining a room whose status is not \<open>Lobby\<close> throws
  \<open>AlreadyStarted\<close>. Joining under a code that refers to a document, when no room is
  there, throws \<open>NotFound\<close>; under a code that refers to no document, \<^verbatim>\<open>doc(...)\<close>
  throws its own error before anything is read. In all three cases the handler shows
  the error's message and the store, hence the room's players and every other field,
  is as it was.
\<close>

theorem join_rejected_leaves_store:
  "(\<forall>key room. docRef (roomCode_d d) = Inr key \<and> getDoc st key = Some room
        \<and> status room \<noteq> Lobby \<longrightarrow>
        joinBody d c st = Inl AlreadyStarted
      \<and> handleJoinQuiz d c st = (c\<lparr>isLoading := False, error := message AlreadyStarted\<rparr>, st))
   \<and> (\<forall>key. docRef (roomCode_d d) = Inr key \<and> getDoc st key = None \<longrightarrow>
        joinBody d c st = Inl NotFound
      \<and> handleJoinQuiz d c st = (c\<lparr>isLoading := False, error := message NotFound\<rparr>, st))
   \<and> (\<forall>e. docRef (roomCode_d d) = Inl e \<longrightarrow>
        joinBody d c st = Inl e
      \<and> handleJoinQuiz d c st = (c\<lparr>isLoading := False, error := message e\<rparr>, st))"
  by (simp add: handleJoinQuiz_def joinBody_def Let_def)

theorem join_rejected_leaves_store_witness:
  "joinBody boJoins (fresh ''bo'') [''SEA42'' \<mapsto> seaRoom InProgress Map.empty]
     = Inl AlreadyStarted
   \<and> snd (handleJoinQuiz boJoins (fresh ''bo'') [''SEA42'' \<mapsto> seaRoom Finished Map.empty])
     = [''SEA42'' \<mapsto> seaRoom Finished Map.empty]
   \<and> error (fst (handleJoinQuiz boJoins (fresh ''bo'')
        [''SEA42'' \<mapsto> seaRoom Finished Map.empty]))
     = ''This quiz is already in progress or has finished.''
   \<and> joinBody boJoins (fresh ''bo'') Map.empty = Inl NotFound
   \<and> handleJoinQuiz boJoins (fresh ''bo'') Map.empty
     = ((fresh ''bo'')\<lparr>error := ''Room not found. Please check the code.''\<rparr>, Map.empty)
   \<and> handleJoinQuiz (boJoins\<lparr>roomCode_d := ''A/B''\<rparr>) (fresh ''bo'')
        [''SEA42'' \<mapsto> seaRoom Lobby Map.empty]
     = ((fresh ''bo'')\<lparr>error := message InvalidReference\<rparr>,
        [''SEA42'' \<mapsto> seaRoom Lobby Map.empty])"
  using join_rejected_leaves_store
          [of boJoins "[''SEA42'' \<mapsto> seaRoom InProgress Map.empty]" "fresh ''bo''"]
        join_rejected_leaves_store
          [of boJoins "[''SEA42'' \<mapsto> seaRoom Finished Map.empty]" "fresh ''bo''"]
        join_rejected_leaves_store [of boJoins Map.empty "fresh ''bo''"]
        join_rejected_leaves_store
          [of "boJoins\<lparr>roomCode_d := ''A/B''\<rparr>" "[''SEA42'' \<mapsto> seaRoom Lobby Map.empty]"
             "fresh ''bo''"]
  by (simp add: getDoc_def boJoins_def seaRoom_def fresh_def docRef_SEA42 docRef_slash)

text \<open>
  The claim as it is written fails: no room is stored under the code \<^verbatim>\<open>A/B\<close>, which the
  form accepts, and the join does not fail with \<open>NotFound\<close>: the error is the one of
  \<^verbatim>\<open>doc(...)\<close>, and its message is what the handler shows.
\<close>

theorem join_invalid_code_counterexample:
  "getDoc [''SEA42'' \<mapsto> seaRoom Lobby Map.empty] ''A/B'' = None
   \<and> joinBody (boJoins\<lparr>roomCode_d := ''A/B''\<rparr>) (fresh ''bo'')
        [''SEA42'' \<mapsto> seaRoom Lobby Map.empty]
     = Inl InvalidReference
   \<and> error (fst (handleJoinQuiz (boJoins\<lparr>roomCode_d := ''A/B''\<rparr>) (fresh ''bo'')
        [''SEA42'' \<mapsto> seaRoom Lobby Map.empty]))
     \<noteq> message NotFound"
  by (simp add: handleJoinQuiz_def joinBody_def docRef_slash getDoc_def boJoins_def Let_def)

text \<open>
  In a room that is in \<open>Lobby\<close>, a join by an identifier that is one segment of a field
  path and already has an entry puts a new entry in its place: the new name, score 0,
  no answers. Nothing of the old entry is kept, and the other entries are as they were.
\<close>

lemma rejoin_replaces_entry:
  assumes "docRef (roomCode_d d) = Inr key"
    and "getDoc st key = Some room"
    and "status room = Lobby"
    and "players room (userId c) = Some old"
    and "oneSegment (userId c)"
  shows "\<exists>c' st' room'. handleJoinQuiz d c st = (c', st')
         \<and> getDoc st' key = Some room'
         \<and> players room' = (players room)(userId c \<mapsto>
               \<lparr>player_id = Some (userId c), name = Some (playerName d),
                score = 0, answers = []\<rparr>)
         \<and> status room' = Lobby"
  using assms setPlayer_oneSegment [OF assms(5)]
  by (simp add: handleJoinQuiz_def joinBody_def updateDoc_def getDoc_def
      oneSegment_valid Let_def)

text \<open>
  C7. The host's identifier is \<^verbatim>\<open>a.b\<close> and the host's entry, written by
  \<^verbatim>\<open>handleCreateQuiz\<close> under the key \<^verbatim>\<open>a.b\<close>, has the name Ada. The same user joins
  the room, still in \<open>Lobby\<close>, under the name Ann. The update names the field path
  \<^verbatim>\<open>players.a.b\<close>, which the store reads as two segments below \<^verbatim>\<open>players\<close>: the new
  player object is written there, the join succeeds, and the entry under \<^verbatim>\<open>a.b\<close> is the
  old one, name Ada.
\<close>

theorem dotted_identifier_entry_not_replaced:
  "page (fst (handleJoinQuiz annJoins (fresh ''a.b'') [''SEA42'' \<mapsto> dottedRoom Lobby]))
     = PLobby
   \<and> error (fst (handleJoinQuiz annJoins (fresh ''a.b'') [''SEA42'' \<mapsto> dottedRoom Lobby]))
     = []
   \<and> storedPlayer
       (snd (handleJoinQuiz annJoins (fresh ''a.b'') [''SEA42'' \<mapsto> dottedRoom Lobby]))
       ''SEA42'' ''a.b''
     = Some (entry ''a.b'' ''Ada'' 0 [])
   \<and> map_option (\<lambda>d. deeper d [''a'', ''b''])
       (getDoc (snd (handleJoinQuiz annJoins (fresh ''a.b'')
          [''SEA42'' \<mapsto> dottedRoom Lobby])) ''SEA42'')
     = Some (Some (DPlayer (entry ''a.b'' ''Ann'' 0 [])))"
  by (simp add: handleJoinQuiz_def joinBody_def updateDoc_def docRef_SEA42 fieldPath_def
      reservedChar_def setPlayer_def storedPlayer_def getDoc_def annJoins_def
      dottedRoom_def seaRoom_def fresh_def entry_def Let_def)


subsection \<open>Submissions while a write is pending\<close>

text \<open>
  C9. The countdown reaches zero on the first question: the callback submits
  \<^verbatim>\<open>'No Answer'\<close> and the write is issued. Before it is acknowledged the question index
  is still 0 and the Submit button is enabled, since an option is selected; a click
  submits again. The player's stored answers then hold two entries for index 0.
  Likewise for two clicks with the room's snapshot delivered in between: two entries
  for index 0 and a score of 20 for one question.
\<close>

theorem second_submission_for_same_index:
  "(case timerTick 1 boPicks seaStore of
      (t, c1, st1, s1) \<Rightarrow>
        (case handleButtonClick c1 st1 of
           (c2, st2, s2) \<Rightarrow>
             (t, currentQuestionIndex c1, currentQuestionIndex c2,
              map_option answers (storedPlayer st2 ''SEA42'' ''bo''))))
     = ((0, False), 0, 0,
        Some [\<lparr>questionIndex = 0, answer = ''No Answer'', isCorrect = False\<rparr>,
              \<lparr>questionIndex = 0, answer = ''Pacific'', isCorrect = True\<rparr>])
   \<and> (case handleButtonClick boPicks seaStore of
        (c1, st1, s1) \<Rightarrow>
          (case handleButtonClick (onRoomSnapshot (getDoc st1 ''SEA42'') c1) st1 of
             (c2, st2, s2) \<Rightarrow>
               map_option (\<lambda>p. (score p, map questionIndex (answers p)))
                 (storedPlayer st2 ''SEA42'' ''bo'')))
     = Some (20, [0, 0])"
  by (simp add: timerTick_def handleButtonClick_def submitBegin_def updateDoc_def
      docRef_SEA42 oneSegment_valid [OF oneSegment_bo]
      setAnswersAndScore_oneSegment [OF oneSegment_bo] onRoomSnapshot_def storedPlayer_def
      getDoc_def boPicks_def seaStore_def playing_def seaRoom_def fresh_def entry_def
      ocean1_def ocean2_def Let_def)


text \<open>
  What does hold: when every submission is acknowledged before the next one is made,
  the indices recorded are consecutive, so a client that starts with no answers records
  each index once.
\<close>

lemma handleAnswerSubmit_advances:
  assumes "quizData c = Some qd" and "Suc (currentQuestionIndex c) < length (questions qd)"
    and "docRef (roomCode c) = Inr key" and "getDoc st key = Some room"
    and "fieldPath (userId c) \<noteq> None"
  shows "\<exists>c' st' room'. handleAnswerSubmit a c st = (c', st', None)
     \<and> quizData c' = Some qd \<and> roomCode c' = roomCode c \<and> userId c' = userId c
     \<and> getDoc st' key = Some room'
     \<and> currentQuestionIndex c' = Suc (currentQuestionIndex c)
     \<and> userAnswers c' = userAnswers c @ [answerOf qd (currentQuestionIndex c) a]"
proof -
  from assms(2) have "currentQuestionIndex c < length (questions qd)"
    and "int (currentQuestionIndex c) < int (length (questions qd)) - 1"
    by simp_all
  with assms(1,3,4,5) show ?thesis
    by (simp add: handleAnswerSubmit_def submitBegin_room submitResume_def getDoc_def)
qed

lemma submitEach_indices:
  assumes "quizData c = Some qd"
    and "docRef (roomCode c) = Inr key" and "getDoc st key = Some room"
    and "fieldPath (userId c) \<noteq> None"
    and "currentQuestionIndex c + length as \<le> length (questions qd)"
  shows "map questionIndex (userAnswers (fst (submitEach as c st))) =
           map questionIndex (userAnswers c) @
             [currentQuestionIndex c ..< currentQuestionIndex c + length as]"
  using assms
proof (induction as arbitrary: c st room)
  case Nil
  then show ?case by simp
next
  case (Cons a as)
  show ?case
  proof (cases as)
    case Nil
    from Cons.prems have "currentQuestionIndex c < length (questions qd)" by simp
    from handleAnswerSubmit_room [OF Cons.prems(1) this Cons.prems(2,3,4), of a]
    obtain c' st' where "handleAnswerSubmit a c st = (c', st', None)"
      and "userAnswers c' = userAnswers c @ [answerOf qd (currentQuestionIndex c) a]"
      by blast
    with Nil show ?thesis by (simp add: answerOf_def)
  next
    case more: (Cons b bs)
    with Cons.prems have "Suc (currentQuestionIndex c) < length (questions qd)" by simp
    from handleAnswerSubmit_advances [OF Cons.prems(1) this Cons.prems(2,3,4), of a]
    obtain c' st' room' where run: "handleAnswerSubmit a c st = (c', st', None)"
      and c': "quizData c' = Some qd" "roomCode c' = roomCode c"
              "currentQuestionIndex c' = Suc (currentQuestionIndex c)"
              "userAnswers c' = userAnswers c @ [answerOf qd (currentQuestionIndex c) a]"
      and uid: "userId c' = userId c"
      and room': "getDoc st' key = Some room'"
      by blast
    from Cons.prems c' uid have ref': "docRef (roomCode c') = Inr key"
      and fp': "fieldPath (userId c') \<noteq> None"
      by simp_all
    from Cons.prems c' have le: "currentQuestionIndex c' + length as \<le> length (questions qd)"
      by simp
    from Cons.IH [OF c'(1) ref' room' fp' le]
    have IH: "map questionIndex (userAnswers (fst (submitEach as c' st'))) =
            map questionIndex (userAnswers c') @
              [currentQuestionIndex c' ..< currentQuestionIndex c' + length as]" .
    have split: "[currentQuestionIndex c ..< currentQuestionIndex c + length (a # as)] =
            currentQuestionIndex c #
              [currentQuestionIndex c' ..< currentQuestionIndex c' + length as]"
      using c'(3) by (simp add: upt_conv_Cons del: upt_Suc)
    have "fst (submitEach (a # as) c st) = fst (submitEach as c' st')"
      using run by simp
    then have "map questionIndex (userAnswers (fst (submitEach (a # as) c st))) =
            map questionIndex (userAnswers c) @
              (currentQuestionIndex c #
                [currentQuestionIndex c' ..< currentQuestionIndex c' + length as])"
      using IH c'(4) by (simp add: answerOf_def del: upt_Suc)
    with split show ?thesis
      by (simp only:)
  qed
qed

lemma submitEach_one_entry_per_index:
  assumes "quizData c = Some qd"
    and "docRef (roomCode c) = Inr key" and "getDoc st key = Some room"
    and "fieldPath (userId c) \<noteq> None"
    and "userAnswers c = []"
    and "currentQuestionIndex c + length as \<le> length (questions qd)"
  shows "distinct (map questionIndex (userAnswers (fst (submitEach as c st))))"
  using submitEach_indices [OF assms(1,2,3,4,6)] assms(5)
  by simp


end
